theory Spec2Isabelle
  imports Complex_Main
begin

section \<open>JavaScript values\<close>

text \<open>
  The script computes with JavaScript numbers. They are modelled as real numbers (the
  idealisation of IEEE doubles: no rounding, no NaN, no infinities), and a property of
  an options object that may be absent (\<^verbatim>\<open>undefined\<close>) is an \<open>option\<close>.
  A number is falsy exactly when it is zero; \<^verbatim>\<open>undefined\<close> is falsy.
\<close>

definition truthy :: "real option \<Rightarrow> bool" where
  "truthy v = (case v of None \<Rightarrow> False | Some r \<Rightarrow> r \<noteq> 0)"

text \<open>The JavaScript expression \<^verbatim>\<open>v || d\<close> for a numeric default \<open>d\<close>.\<close>

definition or_default :: "real option \<Rightarrow> real \<Rightarrow> real" where
  "or_default v d = (case v of None \<Rightarrow> d | Some r \<Rightarrow> if r \<noteq> 0 then r else d)"

section \<open>Easing library\<close>

text \<open>
  \<^verbatim>\<open>
  static easings = {
      linear: t => t,
      easeOutQuad: t => t * (2 - t),
      easeOutBack: t => {
          const c1 = 1.70158;
          const c3 = c1 + 1;
          return 1 + c3 * Math.pow(t - 1, 3) + c1 * Math.pow(t - 1, 2);
      },
      easeOutExpo: t => t === 1 ? 1 : 1 - Math.pow(2, -10 * t)
  };
  \<close>
\<close>

definition linear_easing :: "real \<Rightarrow> real" where
  "linear_easing t = t"

definition easeOutQuad :: "real \<Rightarrow> real" where
  "easeOutQuad t = t * (2 - t)"

definition easeOutBack :: "real \<Rightarrow> real" where
  "easeOutBack t =
     (let c1 = 1.70158; c3 = c1 + 1
      in 1 + c3 * (t - 1) ^ 3 + c1 * (t - 1) ^ 2)"

definition easeOutExpo :: "real \<Rightarrow> real" where
  "easeOutExpo t = (if t = 1 then 1 else 1 - 2 powr (- 10 * t))"

text \<open>The four own keys of the \<^verbatim>\<open>easings\<close> object, and the function each one holds.\<close>

datatype easing = Linear | EaseOutQuad | EaseOutBack | EaseOutExpo

fun ease :: "easing \<Rightarrow> real \<Rightarrow> real" where
  "ease Linear t = linear_easing t"
| "ease EaseOutQuad t = easeOutQuad t"
| "ease EaseOutBack t = easeOutBack t"
| "ease EaseOutExpo t = easeOutExpo t"

text \<open>
  \<^verbatim>\<open>easings\<close> is an object literal, so reading \<^verbatim>\<open>AnimEngine.easings[name]\<close>
  finds an own key first, then a property inherited from \<^verbatim>\<open>Object.prototype\<close>,
  and is \<^verbatim>\<open>undefined\<close> otherwise. The names below are the properties every
  object literal inherits in ECMAScript.
\<close>

definition object_prototype_names :: "string list" where
  "object_prototype_names =
     [''constructor'', ''__proto__'', ''hasOwnProperty'', ''isPrototypeOf'',
      ''propertyIsEnumerable'', ''toLocaleString'', ''toString'', ''valueOf'',
      ''__defineGetter__'', ''__defineSetter__'', ''__lookupGetter__'',
      ''__lookupSetter__'']"

datatype property = Own easing | Inherited string | Undefined

definition easings_get :: "string \<Rightarrow> property" where
  "easings_get name =
     (if name = ''linear'' then Own Linear
      else if name = ''easeOutQuad'' then Own EaseOutQuad
      else if name = ''easeOutBack'' then Own EaseOutBack
      else if name = ''easeOutExpo'' then Own EaseOutExpo
      else if name \<in> set object_prototype_names then Inherited name
      else Undefined)"

text \<open>
  The value the constant \<^verbatim>\<open>easing\<close> of \<^verbatim>\<open>_animateSingle\<close> holds: one of the
  library's functions, or a member of \<^verbatim>\<open>Object.prototype\<close> (which is truthy, so
  \<^verbatim>\<open>||\<close> keeps it).
\<close>

datatype slot = Lib easing | Proto string

text \<open>
  \<^verbatim>\<open>const easing = AnimEngine.easings[vars.ease] || AnimEngine.easings.easeOutQuad;\<close>
  An absent \<^verbatim>\<open>vars.ease\<close> reads the key \<^verbatim>\<open>"undefined"\<close>.
\<close>

definition select_easing :: "string option \<Rightarrow> slot" where
  "select_easing name =
     (case easings_get (case name of None \<Rightarrow> ''undefined'' | Some n \<Rightarrow> n) of
        Own e \<Rightarrow> Lib e
      | Inherited n \<Rightarrow> Proto n
      | Undefined \<Rightarrow> Lib EaseOutQuad)"

section \<open>Tween engine\<close>

subsection \<open>Descriptor and stagger\<close>

text \<open>
  The tween descriptor \<^verbatim>\<open>vars\<close>. \<open>var_onComplete\<close> says whether a completion
  callback was given.
\<close>

record vars =
  var_x :: "real option"
  var_y :: "real option"
  var_opacity :: "real option"
  var_scale :: "real option"
  var_rotate :: "real option"
  var_duration :: "real option"
  var_delay :: "real option"
  var_stagger :: "real option"
  var_ease :: "string option"
  var_onComplete :: bool

text \<open>
  \<^verbatim>\<open>
  to(target, vars) {
      let elements = [];
      if (typeof target === 'string') elements = document.querySelectorAll(target);
      else if (target instanceof NodeList || Array.isArray(target)) elements = target;
      else if (target instanceof HTMLElement) elements = [target];
      if (elements.length === 0) return;
      elements.forEach((el, index) => {
          if (!el) return;
          const delay = (vars.delay || 0) + (vars.stagger ? index * vars.stagger : 0);
          this._animateSingle(el, { ...vars, delay });
      });
  }
  \<close>
  The document's \<^verbatim>\<open>querySelectorAll\<close> is a parameter. An array may hold
  \<^verbatim>\<open>null\<close> entries, so a collection is a list of optional elements.
\<close>

datatype 'e target =
  Selector string | Collection "'e option list" | Element 'e | OtherTarget

definition resolve :: "(string \<Rightarrow> 'e list) \<Rightarrow> 'e target \<Rightarrow> 'e option list" where
  "resolve querySelectorAll target =
     (case target of
        Selector s \<Rightarrow> map Some (querySelectorAll s)
      | Collection els \<Rightarrow> els
      | Element e \<Rightarrow> [Some e]
      | OtherTarget \<Rightarrow> [])"

definition stagger_delay :: "vars \<Rightarrow> nat \<Rightarrow> real" where
  "stagger_delay vars index =
     or_default (var_delay vars) 0
       + (if truthy (var_stagger vars) then real index * the (var_stagger vars) else 0)"

text \<open>
  The body of the \<^verbatim>\<open>forEach\<close> callback: the call of \<^verbatim>\<open>_animateSingle\<close> it
  makes for the element at \<open>index\<close>, or none for a \<^verbatim>\<open>null\<close> entry.
\<close>

definition to_each :: "vars \<Rightarrow> nat \<Rightarrow> 'e option \<Rightarrow> ('e \<times> vars) option" where
  "to_each vars index el =
     (case el of
        None \<Rightarrow> None
      | Some e \<Rightarrow> Some (e, vars\<lparr>var_delay := Some (stagger_delay vars index)\<rparr>))"

text \<open>One entry per index of the resolved collection, in resolution order.\<close>

definition anim_to :: "(string \<Rightarrow> 'e list) \<Rightarrow> 'e target \<Rightarrow> vars \<Rightarrow> ('e \<times> vars) option list" where
  "anim_to querySelectorAll target vars =
     (let elements = resolve querySelectorAll target
      in if length elements = 0 then []
         else map (\<lambda>(index, el). to_each vars index el) (enumerate 0 elements))"

subsection \<open>One tween\<close>

record anim_values =
  av_opacity :: real
  av_x :: real
  av_y :: real
  av_scale :: real
  av_rotate :: real

text \<open>
  The state the closure \<^verbatim>\<open>tick\<close> captures. Times are in milliseconds.
  \<^verbatim>\<open>
  const duration = (vars.duration || 1) * 1000;
  const delay = (vars.delay || 0) * 1000;
  const easing = AnimEngine.easings[vars.ease] || AnimEngine.easings.easeOutQuad;
  const computed = window.getComputedStyle(el);
  const startState = { opacity: parseFloat(computed.opacity), scale: 1, x: 0, y: 0, rotate: 0 };
  const endState = {
      opacity: vars.opacity !== undefined ? vars.opacity : startState.opacity,
      x: vars.x !== undefined ? vars.x : 0,
      y: vars.y !== undefined ? vars.y : 0,
      scale: vars.scale !== undefined ? vars.scale : 1,
      rotate: vars.rotate !== undefined ? vars.rotate : 0
  };
  const startTime = performance.now() + delay;
  \<close>
  The element's computed opacity and the clock's reading are parameters.
\<close>

record tween =
  tw_vars :: vars
  tw_duration :: real
  tw_delay :: real
  tw_easing :: slot
  tw_startState :: anim_values
  tw_endState :: anim_values
  tw_startTime :: real

definition startState_of :: "real \<Rightarrow> anim_values" where
  "startState_of computed_opacity =
     \<lparr>av_opacity = computed_opacity, av_x = 0, av_y = 0, av_scale = 1, av_rotate = 0\<rparr>"

definition endState_of :: "vars \<Rightarrow> anim_values \<Rightarrow> anim_values" where
  "endState_of vars startState =
     \<lparr>av_opacity = (case var_opacity vars of Some v \<Rightarrow> v | None \<Rightarrow> av_opacity startState),
      av_x = (case var_x vars of Some v \<Rightarrow> v | None \<Rightarrow> 0),
      av_y = (case var_y vars of Some v \<Rightarrow> v | None \<Rightarrow> 0),
      av_scale = (case var_scale vars of Some v \<Rightarrow> v | None \<Rightarrow> 1),
      av_rotate = (case var_rotate vars of Some v \<Rightarrow> v | None \<Rightarrow> 0)\<rparr>"

definition animateSingle :: "real \<Rightarrow> real \<Rightarrow> vars \<Rightarrow> tween" where
  "animateSingle computed_opacity performance_now vars =
     (let duration = or_default (var_duration vars) 1 * 1000;
          delay = or_default (var_delay vars) 0 * 1000;
          easing = select_easing (var_ease vars);
          startState = startState_of computed_opacity;
          endState = endState_of vars startState;
          startTime = performance_now + delay
      in \<lparr>tw_vars = vars, tw_duration = duration, tw_delay = delay, tw_easing = easing,
          tw_startState = startState, tw_endState = endState, tw_startTime = startTime\<rparr>)"

subsection \<open>One frame\<close>

text \<open>
  What the host contributes to a frame: the conversion of a number to a string (in a
  template literal and in a style assignment), and what calling a member of
  \<^verbatim>\<open>Object.prototype\<close> as if it were an easing function gives, a
  \<^verbatim>\<open>TypeError\<close> or a value used as a number.
\<close>

datatype error = TypeError

record host =
  num_to_string :: "real \<Rightarrow> string"
  call_inherited :: "string \<Rightarrow> real \<Rightarrow> error + real"

definition call_easing :: "host \<Rightarrow> slot \<Rightarrow> real \<Rightarrow> error + real" where
  "call_easing h easing progress =
     (case easing of
        Lib e \<Rightarrow> Inr (ease e progress)
      | Proto n \<Rightarrow> call_inherited h n progress)"

text \<open>
  \<^verbatim>\<open>
  const elapsed = now - startTime;
  const progress = Math.min(elapsed / duration, 1);
  \<close>
\<close>

definition progress_at :: "tween \<Rightarrow> real \<Rightarrow> real" where
  "progress_at tw now =
     (let elapsed = now - tw_startTime tw
      in min (elapsed / tw_duration tw) 1)"

text \<open>
  \<^verbatim>\<open>
  const current = {
      opacity: startState.opacity + (endState.opacity - startState.opacity) * easeVal,
      x: startState.x + (endState.x - startState.x) * easeVal,
      y: startState.y + (endState.y - startState.y) * easeVal,
      scale: startState.scale + (endState.scale - startState.scale) * easeVal,
      rotate: startState.rotate + (endState.rotate - startState.rotate) * easeVal
  };
  \<close>
\<close>

definition interpolate :: "anim_values \<Rightarrow> anim_values \<Rightarrow> real \<Rightarrow> anim_values" where
  "interpolate startState endState easeVal =
     \<lparr>av_opacity = av_opacity startState + (av_opacity endState - av_opacity startState) * easeVal,
      av_x = av_x startState + (av_x endState - av_x startState) * easeVal,
      av_y = av_y startState + (av_y endState - av_y startState) * easeVal,
      av_scale = av_scale startState + (av_scale endState - av_scale startState) * easeVal,
      av_rotate = av_rotate startState + (av_rotate endState - av_rotate startState) * easeVal\<rparr>"

text \<open>
  \<^verbatim>\<open>
  let transform = '';
  if (vars.x || vars.y) transform += `translate(${current.x}px, ${current.y}px) `;
  if (vars.scale !== undefined) transform += `scale(${current.scale}) `;
  if (vars.rotate !== undefined) transform += `rotate(${current.rotate}deg) `;
  \<close>
\<close>

definition translate_part :: "host \<Rightarrow> anim_values \<Rightarrow> string" where
  "translate_part h current =
     ''translate('' @ num_to_string h (av_x current) @ ''px, ''
       @ num_to_string h (av_y current) @ ''px) ''"

definition scale_part :: "host \<Rightarrow> anim_values \<Rightarrow> string" where
  "scale_part h current = ''scale('' @ num_to_string h (av_scale current) @ '') ''"

definition rotate_part :: "host \<Rightarrow> anim_values \<Rightarrow> string" where
  "rotate_part h current = ''rotate('' @ num_to_string h (av_rotate current) @ ''deg) ''"

definition transform_string :: "host \<Rightarrow> vars \<Rightarrow> anim_values \<Rightarrow> string" where
  "transform_string h vars current =
     (let transform = '''';
          transform = (if truthy (var_x vars) \<or> truthy (var_y vars)
                       then transform @ translate_part h current else transform);
          transform = (if var_scale vars \<noteq> None
                       then transform @ scale_part h current else transform);
          transform = (if var_rotate vars \<noteq> None
                       then transform @ rotate_part h current else transform)
      in transform)"

text \<open>
  The inline style of the element: a map from a style field's name to its value.
  \<^verbatim>\<open>
  if (vars.opacity !== undefined) el.style.opacity = current.opacity;
  ...
  if (transform) el.style.transform = transform;
  \<close>
\<close>

type_synonym style = "string \<Rightarrow> string option"

definition apply_style :: "host \<Rightarrow> vars \<Rightarrow> anim_values \<Rightarrow> style \<Rightarrow> style" where
  "apply_style h vars current st =
     (let st1 = (if var_opacity vars \<noteq> None
                 then st(''opacity'' \<mapsto> num_to_string h (av_opacity current)) else st);
          transform = transform_string h vars current
      in if transform \<noteq> '''' then st1(''transform'' \<mapsto> transform) else st1)"

text \<open>
  What a frame leaves behind besides the style: the tween waits for its start time and
  is rescheduled, runs and is rescheduled, or has finished (with the completion
  callback invoked or not).
\<close>

datatype outcome = Waiting | Running | Finished bool

text \<open>
  \<^verbatim>\<open>
  const tick = (now) => {
      if (now < startTime) { requestAnimationFrame(tick); return; }
      const elapsed = now - startTime;
      const progress = Math.min(elapsed / duration, 1);
      const easeVal = easing(progress);
      ...
      if (progress < 1) { requestAnimationFrame(tick); }
      else { if (vars.onComplete) vars.onComplete(el); }
  };
  \<close>
  An exception thrown by the call of \<^verbatim>\<open>easing\<close> leaves the frame before any style
  is written.
\<close>

definition tick :: "host \<Rightarrow> tween \<Rightarrow> real \<Rightarrow> style \<Rightarrow> error + (style \<times> outcome)" where
  "tick h tw now st =
     (if now < tw_startTime tw then Inr (st, Waiting)
      else
        let progress = progress_at tw now
        in case call_easing h (tw_easing tw) progress of
             Inl err \<Rightarrow> Inl err
           | Inr easeVal \<Rightarrow>
               let current = interpolate (tw_startState tw) (tw_endState tw) easeVal;
                   st' = apply_style h (tw_vars tw) current st
               in if progress < 1 then Inr (st', Running)
                  else Inr (st', Finished (var_onComplete (tw_vars tw))))"

section \<open>Scroll trigger\<close>

text \<open>
  \<^verbatim>\<open>
  scrollTrigger(selector, options) {
      const elements = document.querySelectorAll(selector);
      if (elements.length === 0) return;
      const observer = new IntersectionObserver((entries) => {
          entries.forEach(entry => {
              if (entry.isIntersecting) {
                  if (options.onEnter) options.onEnter(entry.target);
                  if (options.once) observer.unobserve(entry.target);
              } else {
                  if (options.onLeave) options.onLeave(entry.target);
              }
          });
      }, { threshold: options.threshold || 0.2 });
      elements.forEach(el => observer.observe(el));
  }
  \<close>
  \<open>opt_onEnter\<close> and \<open>opt_onLeave\<close> say whether the callback was given. The
  observer is the set of elements it observes, together with the callbacks invoked so
  far, in order.
\<close>

record options =
  opt_onEnter :: bool
  opt_onLeave :: bool
  opt_threshold :: "real option"
  opt_once :: bool

record 'e entry =
  en_target :: 'e
  en_isIntersecting :: bool

datatype 'e call = OnEnter 'e | OnLeave 'e

record 'e observer =
  ob_threshold :: real
  ob_observed :: "'e set"
  ob_calls :: "'e call list"

definition scrollTrigger :: "(string \<Rightarrow> 'e list) \<Rightarrow> string \<Rightarrow> options \<Rightarrow> 'e observer option" where
  "scrollTrigger querySelectorAll selector opts =
     (let elements = querySelectorAll selector
      in if length elements = 0 then None
         else Some \<lparr>ob_threshold = or_default (opt_threshold opts) 0.2,
                    ob_observed = set elements, ob_calls = []\<rparr>)"

text \<open>The body of the \<^verbatim>\<open>entries.forEach\<close> callback.\<close>

definition on_entry :: "options \<Rightarrow> 'e entry \<Rightarrow> 'e observer \<Rightarrow> 'e observer" where
  "on_entry opts en ob =
     (if en_isIntersecting en then
        let ob1 = (if opt_onEnter opts
                   then ob\<lparr>ob_calls := ob_calls ob @ [OnEnter (en_target en)]\<rparr> else ob);
            ob2 = (if opt_once opts
                   then ob1\<lparr>ob_observed := ob_observed ob1 - {en_target en}\<rparr> else ob1)
        in ob2
      else if opt_onLeave opts
           then ob\<lparr>ob_calls := ob_calls ob @ [OnLeave (en_target en)]\<rparr> else ob)"

definition observer_callback :: "options \<Rightarrow> 'e entry list \<Rightarrow> 'e observer \<Rightarrow> 'e observer" where
  "observer_callback opts entries ob = fold (on_entry opts) entries ob"

text \<open>
  The host's side of the contract: a notification carries entries only for elements
  the observer observes when the notification is delivered.
\<close>

definition notify :: "options \<Rightarrow> 'e entry list \<Rightarrow> 'e observer \<Rightarrow> 'e observer" where
  "notify opts entries ob =
     observer_callback opts (filter (\<lambda>en. en_target en \<in> ob_observed ob) entries) ob"

definition notify_all :: "options \<Rightarrow> 'e entry list list \<Rightarrow> 'e observer \<Rightarrow> 'e observer" where
  "notify_all opts batches ob = fold (notify opts) batches ob"

fun call_target :: "'e call \<Rightarrow> 'e" where
  "call_target (OnEnter e) = e"
| "call_target (OnLeave e) = e"

text \<open>No callback for an element follows an \<^verbatim>\<open>onEnter\<close> for that element.\<close>

fun silent_after_enter :: "'e call list \<Rightarrow> bool" where
  "silent_after_enter [] = True"
| "silent_after_enter (OnEnter e # rest) =
     (e \<notin> set (map call_target rest) \<and> silent_after_enter rest)"
| "silent_after_enter (OnLeave e # rest) = silent_after_enter rest"

section \<open>Particle simulation\<close>

text \<open>
  \<^verbatim>\<open>
  class Particle {
      constructor() {
          this.x = Math.random() * width;
          this.y = Math.random() * height;
          this.vx = (Math.random() - 0.5) * 0.5;
          this.vy = (Math.random() - 0.5) * 0.5;
          this.size = Math.random() * 2;
      }
      update() {
          this.x += this.vx;
          this.y += this.vy;
          if (this.x < 0) this.x = width;
          if (this.x > width) this.x = 0;
          if (this.y < 0) this.y = height;
          if (this.y > height) this.y = 0;
      }
  }
  \<close>
  \<^verbatim>\<open>Math.random\<close> is the sequence \<open>random\<close> of the values it returns; the
  constructor takes the five values from position \<open>k\<close> on.

  In \<^verbatim>\<open>update\<close> the sum decides whether the particle wraps, and the script's sum
  is a floating-point one: the exact sum rounded to a number the host can represent.
  The rounding is the parameter \<open>fl\<close>, so that nothing proved of \<open>update\<close> depends on
  a sum being exact.
\<close>

record particle =
  p_x :: real
  p_y :: real
  p_vx :: real
  p_vy :: real
  p_size :: real

definition Particle_new :: "(nat \<Rightarrow> real) \<Rightarrow> nat \<Rightarrow> real \<Rightarrow> real \<Rightarrow> particle" where
  "Particle_new random k width height =
     \<lparr>p_x = random k * width,
      p_y = random (k + 1) * height,
      p_vx = (random (k + 2) - 0.5) * 0.5,
      p_vy = (random (k + 3) - 0.5) * 0.5,
      p_size = random (k + 4) * 2\<rparr>"

definition update :: "(real \<Rightarrow> real) \<Rightarrow> real \<Rightarrow> real \<Rightarrow> particle \<Rightarrow> particle" where
  "update fl width height p =
     (let x = fl (p_x p + p_vx p);
          y = fl (p_y p + p_vy p);
          x = (if x < 0 then width else x);
          x = (if x > width then 0 else x);
          y = (if y < 0 then height else y);
          y = (if y > height then 0 else y)
      in p\<lparr>p_x := x, p_y := y\<rparr>)"

text \<open>
  The variables \<^verbatim>\<open>width\<close>, \<^verbatim>\<open>height\<close> and \<^verbatim>\<open>particles\<close> of
  \<^verbatim>\<open>initParticles\<close>, and the number of values \<^verbatim>\<open>Math.random\<close> has returned.
\<close>

record simulation =
  sim_width :: real
  sim_height :: real
  sim_particles :: "particle list"
  sim_draws :: nat

text \<open>
  \<^verbatim>\<open>
  const resize = () => {
      width = canvas.width = window.innerWidth;
      height = canvas.height = window.innerHeight;
  };
  \<close>
\<close>

definition resize :: "nat \<Rightarrow> nat \<Rightarrow> simulation \<Rightarrow> simulation" where
  "resize innerWidth innerHeight s =
     s\<lparr>sim_width := real innerWidth, sim_height := real innerHeight\<rparr>"

text \<open>
  \<^verbatim>\<open>
  const init = () => {
      particles = [];
      for (let i = 0; i < 50; i++) particles.push(new Particle());
  };
  \<close>
\<close>

function init_loop :: "(nat \<Rightarrow> real) \<Rightarrow> nat \<Rightarrow> simulation \<Rightarrow> simulation" where
  "init_loop random i s =
     (if i < 50
      then init_loop random (i + 1)
             (s\<lparr>sim_particles :=
                  sim_particles s @ [Particle_new random (sim_draws s) (sim_width s) (sim_height s)],
                sim_draws := sim_draws s + 5\<rparr>)
      else s)"
  by pat_completeness auto
termination
  by (relation "measure (\<lambda>(random, i, s). 50 - i)") auto

declare init_loop.simps [simp del]

definition init :: "(nat \<Rightarrow> real) \<Rightarrow> simulation \<Rightarrow> simulation" where
  "init random s = init_loop random 0 (s\<lparr>sim_particles := []\<rparr>)"

text \<open>
  One frame of \<^verbatim>\<open>animate\<close>: every particle is updated. Clearing the canvas and
  drawing the circles and the connecting lines change no variable of the simulation.
\<close>

definition animate :: "(real \<Rightarrow> real) \<Rightarrow> simulation \<Rightarrow> simulation" where
  "animate fl s =
     s\<lparr>sim_particles := map (update fl (sim_width s) (sim_height s)) (sim_particles s)\<rparr>"

text \<open>
  \<^verbatim>\<open>
  function initParticles() {
      const canvas = document.getElementById('particle-canvas');
      if (!canvas) return;
      ...
      window.addEventListener('resize', resize);
      resize();
      init();
      animate();
  }
  \<close>
  \<open>created\<close> is the simulation after \<^verbatim>\<open>resize(); init();\<close>. Without the canvas
  element \<^verbatim>\<open>initParticles\<close> returns at once: there is no simulation and no
  listener. With it, the listener runs \<open>resize\<close> alone on each later resize event.
\<close>

definition created :: "(nat \<Rightarrow> real) \<Rightarrow> nat \<Rightarrow> nat \<Rightarrow> simulation" where
  "created random innerWidth innerHeight =
     init random (resize innerWidth innerHeight
       \<lparr>sim_width = 0, sim_height = 0, sim_particles = [], sim_draws = 0\<rparr>)"

definition initParticles ::
  "'c option \<Rightarrow> (real \<Rightarrow> real) \<Rightarrow> (nat \<Rightarrow> real) \<Rightarrow> nat \<Rightarrow> nat \<Rightarrow> simulation option" where
  "initParticles canvas fl random innerWidth innerHeight =
     (case canvas of
        None \<Rightarrow> None
      | Some c \<Rightarrow> Some (animate fl (created random innerWidth innerHeight)))"

datatype event = Resize nat nat | Frame

fun on_event :: "(real \<Rightarrow> real) \<Rightarrow> event \<Rightarrow> simulation \<Rightarrow> simulation" where
  "on_event fl (Resize innerWidth innerHeight) s = resize innerWidth innerHeight s"
| "on_event fl Frame s = animate fl s"


section \<open>Properties and example inputs\<close>

text \<open>What the constructor promises of a new particle on a canvas of the given size.\<close>

definition in_range :: "real \<Rightarrow> real \<Rightarrow> particle \<Rightarrow> bool" where
  "in_range width height p =
     (0 \<le> p_x p \<and> p_x p \<le> width \<and> 0 \<le> p_y p \<and> p_y p \<le> height
      \<and> - 0.25 \<le> p_vx p \<and> p_vx p \<le> 0.25 \<and> - 0.25 \<le> p_vy p \<and> p_vy p \<le> 0.25
      \<and> 0 \<le> p_size p \<and> p_size p < 2)"

text \<open>An element whose \<^verbatim>\<open>onEnter\<close> has fired is no longer observed.\<close>

definition entered_unobserved :: "'e observer \<Rightarrow> bool" where
  "entered_unobserved ob = (\<forall>e. OnEnter e \<in> set (ob_calls ob) \<longrightarrow> e \<notin> ob_observed ob)"

text \<open>A notification that holds at most one entry for each element.\<close>

definition one_entry_per_target :: "'e entry list \<Rightarrow> bool" where
  "one_entry_per_target entries = distinct (map en_target entries)"

text \<open>The descriptor \<^verbatim>\<open>{}\<close>, and a host that prints the numbers the examples need.\<close>

definition empty_vars :: vars where
  "empty_vars = \<lparr>var_x = None, var_y = None, var_opacity = None, var_scale = None,
     var_rotate = None, var_duration = None, var_delay = None, var_stagger = None,
     var_ease = None, var_onComplete = False\<rparr>"

definition example_host :: host where
  "example_host =
     \<lparr>num_to_string = (\<lambda>r. if r = 0 then ''0'' else if r = 50 then ''50'' else ''?''),
      call_inherited = (\<lambda>n t. Inl TypeError)\<rparr>"

text \<open>\<^verbatim>\<open>{ x: 100, duration: 1, ease: 'linear' }\<close>\<close>

definition linear_vars :: vars where
  "linear_vars = empty_vars\<lparr>var_x := Some 100, var_duration := Some 1, var_ease := Some ''linear''\<rparr>"

text \<open>\<^verbatim>\<open>{ opacity: 1, delay: 0, stagger: 0.1 }\<close>\<close>

definition stagger_vars :: vars where
  "stagger_vars = empty_vars\<lparr>var_opacity := Some 1, var_delay := Some 0, var_stagger := Some 0.1\<rparr>"

text \<open>
  The tween the script starts for an element with \<^verbatim>\<open>data-anim="fade-up"\<close>:
  \<^verbatim>\<open>
  el.style.opacity = 0;
  el.style.transform = 'translateY(30px)';
  anim.to(el, { opacity: 1, y: 0, duration: 0.8, ease: 'easeOutBack' });
  \<close>
\<close>

definition fade_up_vars :: vars where
  "fade_up_vars = empty_vars\<lparr>var_opacity := Some 1, var_y := Some 0, var_duration := Some 0.8,
     var_ease := Some ''easeOutBack''\<rparr>"

definition fade_up_style :: style where
  "fade_up_style = [''opacity'' \<mapsto> ''0'', ''transform'' \<mapsto> ''translateY(30px)'']"

text \<open>\<^verbatim>\<open>{ opacity: 0, ease: '__proto__' }\<close>\<close>

definition proto_vars :: vars where
  "proto_vars = empty_vars\<lparr>var_opacity := Some 0, var_ease := Some ''__proto__''\<rparr>"

text \<open>Arithmetic without rounding.\<close>

definition exact :: "real \<Rightarrow> real" where
  "exact r = r"

text \<open>A particle a tenth of a unit from the right edge of a canvas 100 wide, drifting right.\<close>

definition edge_particle :: particle where
  "edge_particle = \<lparr>p_x = 100 - 0.1, p_y = 50, p_vx = 0.05, p_vy = 0, p_size = 1\<rparr>"

definition fast_edge_particle :: particle where
  "fast_edge_particle = \<lparr>p_x = 100 - 0.1, p_y = 50, p_vx = 0.25, p_vy = 0, p_size = 1\<rparr>"

text \<open>A \<^verbatim>\<open>Math.random\<close> that returns one half each time.\<close>

definition half :: "nat \<Rightarrow> real" where
  "half k = 1 / 2"

text \<open>A registration with \<^verbatim>\<open>once\<close> and both callbacks, on a page with two matches.\<close>

definition once_opts :: options where
  "once_opts = \<lparr>opt_onEnter = True, opt_onLeave = True, opt_threshold = None, opt_once = True\<rparr>"

definition two_elements :: "string \<Rightarrow> nat list" where
  "two_elements selector = [1, 2]"

definition once_observer :: "nat observer" where
  "once_observer = \<lparr>ob_threshold = 0.2, ob_observed = {1, 2}, ob_calls = []\<rparr>"

definition once_batches :: "nat entry list list" where
  "once_batches =
     [[\<lparr>en_target = 1, en_isIntersecting = False\<rparr>, \<lparr>en_target = 2, en_isIntersecting = True\<rparr>],
      [\<lparr>en_target = 1, en_isIntersecting = True\<rparr>, \<lparr>en_target = 2, en_isIntersecting = False\<rparr>],
      [\<lparr>en_target = 1, en_isIntersecting = True\<rparr>, \<lparr>en_target = 2, en_isIntersecting = True\<rparr>]]"

section \<open>Easing library: proofs\<close>

lemma select_easing_fallback:
  "name \<notin> {''linear'', ''easeOutQuad'', ''easeOutBack'', ''easeOutExpo''} \<Longrightarrow>
   name \<notin> set object_prototype_names \<Longrightarrow>
   select_easing (Some name) = Lib EaseOutQuad"
  by (simp add: select_easing_def easings_get_def)

lemma select_easing_bogus: "select_easing (Some ''bogus'') = Lib EaseOutQuad"
  by (simp add: select_easing_def easings_get_def object_prototype_names_def)

lemma select_easing_absent: "select_easing None = Lib EaseOutQuad"
  by (simp add: select_easing_def easings_get_def object_prototype_names_def)

lemma ease_fallback_is_easeOutQuad:
  "call_easing h (select_easing (Some ''bogus'')) t = Inr (t * (2 - t))"
  by (simp add: select_easing_bogus call_easing_def easeOutQuad_def)

text \<open>
  Claim C8. \<^verbatim>\<open>easeOutBack\<close> is \<open>1 + c3 * (t - 1)^3 + c1 * (t - 1)^2\<close> with
  \<open>c1 = 1.70158\<close> and \<open>c3 = c1 + 1\<close>; it is exactly 1 at \<open>t = 1\<close>, and it exceeds 1
  somewhere strictly between 0 and 1. It is the function the library holds under the
  name \<^verbatim>\<open>easeOutBack\<close>.
\<close>

theorem easeOutBack_overshoot:
  "easeOutBack t = 1 + (1.70158 + 1) * (t - 1) ^ 3 + 1.70158 * (t - 1) ^ 2
   \<and> easeOutBack 1 = 1
   \<and> (\<exists>u. 0 < u \<and> u < 1 \<and> 1 < easeOutBack u)
   \<and> select_easing (Some ''easeOutBack'') = Lib EaseOutBack
   \<and> ease EaseOutBack t = easeOutBack t"
proof -
  have "(0::real) < 1/2 \<and> (1/2::real) < 1 \<and> 1 < easeOutBack (1/2)"
    by (simp add: easeOutBack_def Let_def power2_eq_square power3_eq_cube)
  then have "\<exists>u. 0 < u \<and> u < 1 \<and> 1 < easeOutBack u" by blast
  moreover have "select_easing (Some ''easeOutBack'') = Lib EaseOutBack"
    by (simp add: select_easing_def easings_get_def)
  ultimately show ?thesis
    by (simp add: easeOutBack_def Let_def)
qed

theorem easeOutBack_overshoot_witness:
  "easeOutBack (1/2) = 1.0876975 \<and> easeOutBack 1 = 1"
  using easeOutBack_overshoot [of "1/2"]
  by (simp add: power2_eq_square power3_eq_cube)

text \<open>
  Claim C7. A name that is no key of the library falls back to \<^verbatim>\<open>easeOutQuad\<close>
  only when \<^verbatim>\<open>Object.prototype\<close> has no property of that name either
  (\<open>select_easing_fallback\<close>, \<open>select_easing_bogus\<close>). For \<^verbatim>\<open>"__proto__"\<close> and
  \<^verbatim>\<open>"constructor"\<close> the lookup finds the inherited member, the fallback is not
  taken, and the frame calls that member in place of an easing function.
\<close>

theorem select_easing_inherited:
  "select_easing (Some ''__proto__'') = Proto ''__proto__''
   \<and> select_easing (Some ''constructor'') = Proto ''constructor''
   \<and> select_easing (Some ''__proto__'') \<noteq> Lib EaseOutQuad
   \<and> call_easing h (select_easing (Some ''__proto__'')) progress
       = call_inherited h ''__proto__'' progress"
  by (simp add: select_easing_def easings_get_def object_prototype_names_def call_easing_def)

section \<open>Tween engine: proofs\<close>

lemma or_default_case: "or_default v 0 = (case v of None \<Rightarrow> 0 | Some d \<Rightarrow> d)"
  by (simp add: or_default_def split: option.splits)

lemma tw_vars_animateSingle: "tw_vars (animateSingle co t0 vars) = vars"
  by (simp add: animateSingle_def Let_def)

lemma tw_easing_animateSingle:
  "tw_easing (animateSingle co t0 vars) = select_easing (var_ease vars)"
  by (simp add: animateSingle_def Let_def)

lemma tw_startState_animateSingle: "tw_startState (animateSingle co t0 vars) = startState_of co"
  by (simp add: animateSingle_def Let_def)

lemma tw_endState_animateSingle:
  "tw_endState (animateSingle co t0 vars) = endState_of vars (startState_of co)"
  by (simp add: animateSingle_def Let_def)

lemma tw_duration_animateSingle:
  "tw_duration (animateSingle co t0 vars) = or_default (var_duration vars) 1 * 1000"
  by (simp add: animateSingle_def Let_def)

lemma tw_startTime_animateSingle:
  "tw_startTime (animateSingle co t0 vars) = t0 + or_default (var_delay vars) 0 * 1000"
  by (simp add: animateSingle_def Let_def)

lemma tw_delay_animateSingle:
  "tw_delay (animateSingle co t0 (vars\<lparr>var_delay := Some d\<rparr>)) = d * 1000"
  by (simp add: animateSingle_def Let_def or_default_def)

lemmas tween_fields = tw_vars_animateSingle tw_easing_animateSingle tw_startState_animateSingle
  tw_endState_animateSingle tw_duration_animateSingle tw_startTime_animateSingle

subsection \<open>Stagger\<close>

lemma stagger_delay_given:
  "var_stagger vars = Some s \<Longrightarrow>
   stagger_delay vars i = (case var_delay vars of None \<Rightarrow> 0 | Some d \<Rightarrow> d) + real i * s"
  by (simp add: stagger_delay_def truthy_def or_default_case)

lemma anim_to_nth:
  "i < length (resolve qsa target) \<Longrightarrow>
   anim_to qsa target vars ! i = to_each vars i (resolve qsa target ! i)"
  by (auto simp: anim_to_def Let_def nth_enumerate_eq)

lemma stagger_three:
  "anim_to qsa (Collection [Some a, Some b, Some c]) stagger_vars ! 2
     = Some (c, stagger_vars\<lparr>var_delay := Some 0.2\<rparr>)"
proof -
  have s: "var_stagger stagger_vars = Some 0.1" "var_delay stagger_vars = Some 0"
    by (simp_all add: stagger_vars_def)
  have "stagger_delay stagger_vars 2 = 0.2"
    by (simp add: stagger_delay_given [OF s(1)] s(2))
  then show ?thesis
    by (simp add: anim_to_nth resolve_def to_each_def)
qed

text \<open>
  Claim C6. When a stagger value \<open>s\<close> is given, the element at index \<open>i\<close> of the
  resolved collection is tweened with the delay \<open>d + i * s\<close>, where \<open>d\<close> is the
  explicit delay (0 when absent); its tween waits that many seconds, in milliseconds,
  from the clock's reading. Over three elements with stagger 0.1 and delay 0, the
  element at index 2 gets the delay 0.2.
\<close>

theorem stagger_effective_delay:
  assumes "var_stagger vars = Some s"
    and "i < length (resolve qsa target)"
    and "resolve qsa target ! i = Some e"
    and "delay = (case var_delay vars of None \<Rightarrow> 0 | Some d \<Rightarrow> d) + real i * s"
  shows "length (anim_to qsa target vars) = length (resolve qsa target)
     \<and> anim_to qsa target vars ! i = Some (e, vars\<lparr>var_delay := Some delay\<rparr>)
     \<and> tw_delay (animateSingle co t0 (vars\<lparr>var_delay := Some delay\<rparr>)) = delay * 1000
     \<and> tw_startTime (animateSingle co t0 (vars\<lparr>var_delay := Some delay\<rparr>)) = t0 + delay * 1000
     \<and> anim_to qsa (Collection [Some a, Some b, Some c]) stagger_vars ! 2
         = Some (c, stagger_vars\<lparr>var_delay := Some 0.2\<rparr>)"
proof -
  have "length (anim_to qsa target vars) = length (resolve qsa target)"
    by (simp add: anim_to_def Let_def)
  moreover have "anim_to qsa target vars ! i = Some (e, vars\<lparr>var_delay := Some delay\<rparr>)"
    using assms by (simp add: anim_to_nth to_each_def stagger_delay_given)
  moreover have "tw_startTime (animateSingle co t0 (vars\<lparr>var_delay := Some delay\<rparr>))
      = t0 + delay * 1000"
    by (simp add: tw_startTime_animateSingle or_default_case)
  ultimately show ?thesis
    by (simp add: tw_delay_animateSingle stagger_three)
qed

theorem stagger_effective_delay_witness:
  "anim_to (\<lambda>s. []) (Collection [Some (0::nat), Some 1, Some 2]) stagger_vars ! 2
     = Some (2, stagger_vars\<lparr>var_delay := Some 0.2\<rparr>)
   \<and> tw_delay (animateSingle 1 0 (stagger_vars\<lparr>var_delay := Some 0.2\<rparr>)) = 200"
proof -
  have s: "var_stagger stagger_vars = Some 0.1"
    by (simp add: stagger_vars_def)
  have l: "2 < length (resolve (\<lambda>s. []) (Collection [Some (0::nat), Some 1, Some 2]))"
    by (simp add: resolve_def)
  have e: "resolve (\<lambda>s. []) (Collection [Some (0::nat), Some 1, Some 2]) ! 2 = Some 2"
    by (simp add: resolve_def)
  have d: "(0.2::real) = (case var_delay stagger_vars of None \<Rightarrow> 0 | Some d \<Rightarrow> d) + real 2 * 0.1"
    by (simp add: stagger_vars_def)
  from stagger_effective_delay [OF s l e d, of 1 0]
  show ?thesis by simp
qed

subsection \<open>Duration\<close>

lemma tw_duration_nonzero: "tw_duration (animateSingle co t0 vars) \<noteq> 0"
  by (simp add: tw_duration_animateSingle or_default_def split: option.splits)

lemma tw_duration_positive:
  "(case var_duration vars of None \<Rightarrow> True | Some d \<Rightarrow> 0 \<le> d) \<Longrightarrow>
   0 < tw_duration (animateSingle co t0 vars)"
  by (simp add: tw_duration_animateSingle or_default_def split: option.splits)

text \<open>
  Claim C9. When the descriptor's duration is absent or 0 (falsy), the tween's duration
  is the default of 1 second, 1000 milliseconds: the divisor of every frame's
  \<open>elapsed / duration\<close> is strictly positive, and the frame's progress is
  \<open>min (elapsed / 1000) 1\<close>. Whatever the descriptor, the divisor is not zero.
\<close>

theorem falsy_duration_default:
  assumes "\<not> truthy (var_duration vars)"
  shows "tw_duration (animateSingle co t0 vars) = 1 * 1000
     \<and> 0 < tw_duration (animateSingle co t0 vars)
     \<and> progress_at (animateSingle co t0 vars) now
         = min ((now - tw_startTime (animateSingle co t0 vars)) / 1000) 1
     \<and> tw_duration (animateSingle co t0 any_vars) \<noteq> 0"
proof -
  have d: "tw_duration (animateSingle co t0 vars) = 1000"
    using assms
    by (simp add: tw_duration_animateSingle or_default_def truthy_def split: option.splits)
  then show ?thesis
    by (simp add: progress_at_def Let_def tw_duration_nonzero)
qed

theorem falsy_duration_default_witness:
  "\<not> truthy (var_duration (empty_vars\<lparr>var_duration := Some 0\<rparr>))
   \<and> tw_duration (animateSingle 1 0 (empty_vars\<lparr>var_duration := Some 0\<rparr>)) = 1000
   \<and> progress_at (animateSingle 1 0 (empty_vars\<lparr>var_duration := Some 0\<rparr>)) 250 = 1/4
   \<and> \<not> truthy (var_duration empty_vars)
   \<and> tw_duration (animateSingle 1 0 empty_vars) = 1000"
  using falsy_duration_default [of "empty_vars\<lparr>var_duration := Some 0\<rparr>" 1 0 250 empty_vars]
    falsy_duration_default [of empty_vars 1 0 250 empty_vars]
  by (simp add: truthy_def empty_vars_def tw_startTime_animateSingle or_default_def)

subsection \<open>Interpolation\<close>

lemma tick_running:
  assumes "tw_startTime tw \<le> now"
    and "call_easing h (tw_easing tw) (progress_at tw now) = Inr easeVal"
  shows "tick h tw now st =
     Inr (apply_style h (tw_vars tw)
            (interpolate (tw_startState tw) (tw_endState tw) easeVal) st,
          if progress_at tw now < 1 then Running else Finished (var_onComplete (tw_vars tw)))"
  using assms by (simp add: tick_def Let_def)

lemma linear_half:
  "tw_startTime (animateSingle co t0 linear_vars) \<le> t0 + 500
   \<and> progress_at (animateSingle co t0 linear_vars) (t0 + 500) = 1/2
   \<and> tw_easing (animateSingle co t0 linear_vars) = Lib Linear
   \<and> interpolate (tw_startState (animateSingle co t0 linear_vars))
        (tw_endState (animateSingle co t0 linear_vars)) (1/2)
       = \<lparr>av_opacity = co, av_x = 50, av_y = 0, av_scale = 1, av_rotate = 0\<rparr>"
  by (simp add: tween_fields progress_at_def Let_def or_default_def select_easing_def
      easings_get_def interpolate_def startState_of_def endState_of_def)
    (simp add: linear_vars_def empty_vars_def)

lemma linear_half_x:
  "av_x (interpolate (tw_startState (animateSingle co t0 linear_vars))
      (tw_endState (animateSingle co t0 linear_vars))
      (ease Linear (progress_at (animateSingle co t0 linear_vars) (t0 + 500)))) = 50"
proof -
  have "ease Linear (progress_at (animateSingle co t0 linear_vars) (t0 + 500)) = 1/2"
    by (simp add: linear_half linear_easing_def)
  then show ?thesis
    by (simp only: linear_half) simp
qed

text \<open>
  On a frame at or after the start time on which the call of \<^verbatim>\<open>easing\<close> returns, the
  progress is \<open>min (elapsed / duration) 1\<close>, the easing is applied to it, and each of the
  five values of \<^verbatim>\<open>current\<close> is \<open>start + (end - start) * easeVal\<close>; these are the
  values the frame writes to the style. When the easing is one of the library's,
  \<open>easeVal\<close> is that function of the progress. With
  \<^verbatim>\<open>{ x: 100, duration: 1, ease: 'linear' }\<close> the start of \<open>x\<close> is 0, its end 100, and
  500 milliseconds after the start its value is 50.
\<close>

lemma tick_interpolates:
  assumes "tw_startTime tw \<le> now"
    and "progress = min ((now - tw_startTime tw) / tw_duration tw) 1"
    and "call_easing h (tw_easing tw) progress = Inr easeVal"
    and "current = interpolate (tw_startState tw) (tw_endState tw) easeVal"
  shows "tick h tw now st =
       Inr (apply_style h (tw_vars tw) current st,
            if progress < 1 then Running else Finished (var_onComplete (tw_vars tw)))
     \<and> (tw_easing tw = Lib e \<longrightarrow> easeVal = ease e progress)
     \<and> av_opacity current = av_opacity (tw_startState tw)
         + (av_opacity (tw_endState tw) - av_opacity (tw_startState tw)) * easeVal
     \<and> av_x current = av_x (tw_startState tw)
         + (av_x (tw_endState tw) - av_x (tw_startState tw)) * easeVal
     \<and> av_y current = av_y (tw_startState tw)
         + (av_y (tw_endState tw) - av_y (tw_startState tw)) * easeVal
     \<and> av_scale current = av_scale (tw_startState tw)
         + (av_scale (tw_endState tw) - av_scale (tw_startState tw)) * easeVal
     \<and> av_rotate current = av_rotate (tw_startState tw)
         + (av_rotate (tw_endState tw) - av_rotate (tw_startState tw)) * easeVal
     \<and> av_x (interpolate (tw_startState (animateSingle co t0 linear_vars))
          (tw_endState (animateSingle co t0 linear_vars))
          (ease Linear (progress_at (animateSingle co t0 linear_vars) (t0 + 500)))) = 50"
proof -
  have p: "progress = progress_at tw now"
    using assms(2) by (simp add: progress_at_def Let_def)
  have t: "tick h tw now st =
       Inr (apply_style h (tw_vars tw) current st,
            if progress < 1 then Running else Finished (var_onComplete (tw_vars tw)))"
    using tick_running [OF assms(1), of h easeVal st] assms(3,4) p by simp
  have l: "tw_easing tw = Lib e \<longrightarrow> easeVal = ease e progress"
    using assms(3) by (auto simp: call_easing_def)
  have f: "av_opacity current = av_opacity (tw_startState tw)
         + (av_opacity (tw_endState tw) - av_opacity (tw_startState tw)) * easeVal
     \<and> av_x current = av_x (tw_startState tw)
         + (av_x (tw_endState tw) - av_x (tw_startState tw)) * easeVal
     \<and> av_y current = av_y (tw_startState tw)
         + (av_y (tw_endState tw) - av_y (tw_startState tw)) * easeVal
     \<and> av_scale current = av_scale (tw_startState tw)
         + (av_scale (tw_endState tw) - av_scale (tw_startState tw)) * easeVal
     \<and> av_rotate current = av_rotate (tw_startState tw)
         + (av_rotate (tw_endState tw) - av_rotate (tw_startState tw)) * easeVal"
    using assms(4) by (simp add: interpolate_def)
  from t l f linear_half_x [of co t0] show ?thesis
    by blast
qed

lemma tick_interpolates_example:
  "tick example_host (animateSingle 1 0 linear_vars) 500 Map.empty
     = Inr ([''transform'' \<mapsto> ''translate(50px, 0px) ''], Running)
   \<and> av_x (interpolate (tw_startState (animateSingle 1 0 linear_vars))
        (tw_endState (animateSingle 1 0 linear_vars)) (1/2)) = 50"
proof -
  let ?tw = "animateSingle 1 0 linear_vars"
  let ?cur = "interpolate (tw_startState ?tw) (tw_endState ?tw) (1/2)"
  have h1: "tw_startTime ?tw \<le> 500"
    using linear_half [of 1 0] by simp
  have p: "progress_at ?tw 500 = 1/2"
    using linear_half [of 1 0] by simp
  have h2: "1/2 = min ((500 - tw_startTime ?tw) / tw_duration ?tw) 1"
    using p [unfolded progress_at_def Let_def] by (rule sym)
  have h3: "call_easing example_host (tw_easing ?tw) (1/2) = Inr (1/2)"
    by (simp add: linear_half call_easing_def linear_easing_def)
  have cur: "?cur = \<lparr>av_opacity = 1, av_x = 50, av_y = 0, av_scale = 1, av_rotate = 0\<rparr>"
    using linear_half [of 1 0] by simp
  have sty: "apply_style example_host (tw_vars ?tw) ?cur Map.empty
      = [''transform'' \<mapsto> ''translate(50px, 0px) '']"
    unfolding cur
    by (simp add: tween_fields apply_style_def transform_string_def translate_part_def
        truthy_def linear_vars_def empty_vars_def example_host_def Let_def)
  from tick_interpolates [OF h1 h2 h3 refl, of Map.empty]
  have "tick example_host ?tw 500 Map.empty =
      Inr (apply_style example_host (tw_vars ?tw) ?cur Map.empty,
           if (1/2::real) < 1 then Running else Finished (var_onComplete (tw_vars ?tw)))"
    by (rule conjunct1)
  then have "tick example_host ?tw 500 Map.empty
      = Inr ([''transform'' \<mapsto> ''translate(50px, 0px) ''], Running)"
    unfolding sty by simp
  moreover have "av_x ?cur = 50"
    unfolding cur by simp
  ultimately show ?thesis
    by (rule conjI)
qed

lemma tick_interpolates_library:
  assumes "tw_startTime tw \<le> now" and "tw_easing tw = Lib e"
  shows "tick h tw now st =
     Inr (apply_style h (tw_vars tw)
            (interpolate (tw_startState tw) (tw_endState tw)
               (ease e (min ((now - tw_startTime tw) / tw_duration tw) 1))) st,
          if min ((now - tw_startTime tw) / tw_duration tw) 1 < 1 then Running
          else Finished (var_onComplete (tw_vars tw)))"
  using assms by (simp add: tick_def call_easing_def progress_at_def Let_def)

text \<open>
  Claim C5. A frame after the delay phase computes the progress, applies the easing and
  interpolates only when the call of \<^verbatim>\<open>easing\<close> returns, as it does for every function
  of the library and for the fallback (\<open>tick_interpolates\<close>). For a tween whose easing
  name is \<^verbatim>\<open>"__proto__"\<close> the constant \<^verbatim>\<open>easing\<close> holds \<^verbatim>\<open>Object.prototype\<close>, which
  is no function: in a host where calling it throws a \<^verbatim>\<open>TypeError\<close>, every frame
  after the delay phase throws, no eased value exists and nothing is interpolated or
  written.
\<close>

theorem inherited_easing_frame_throws:
  assumes "var_ease vars = Some ''__proto__''"
    and "tw_startTime (animateSingle co t0 vars) \<le> now"
    and "call_inherited h ''__proto__'' (progress_at (animateSingle co t0 vars) now) = Inl TypeError"
  shows "tw_easing (animateSingle co t0 vars) = Proto ''__proto__''
     \<and> tick h (animateSingle co t0 vars) now st = Inl TypeError
     \<and> (\<nexists>easeVal. call_easing h (tw_easing (animateSingle co t0 vars))
            (progress_at (animateSingle co t0 vars) now) = Inr easeVal)"
proof -
  let ?tw = "animateSingle co t0 vars"
  have e: "tw_easing ?tw = Proto ''__proto__''"
    using assms(1)
    by (simp add: tw_easing_animateSingle select_easing_def easings_get_def
        object_prototype_names_def)
  have c: "call_easing h (tw_easing ?tw) (progress_at ?tw now) = Inl TypeError"
    unfolding e using assms(3) by (simp add: call_easing_def)
  have "tick h ?tw now st = Inl TypeError"
    using assms(2) c by (simp add: tick_def Let_def)
  with e c show ?thesis by simp
qed

theorem inherited_easing_frame_throws_witness:
  "var_ease proto_vars = Some ''__proto__''
   \<and> tw_startTime (animateSingle 1 0 proto_vars) \<le> 500
   \<and> tick example_host (animateSingle 1 0 proto_vars) 500 fade_up_style = Inl TypeError"
proof -
  have a: "var_ease proto_vars = Some ''__proto__''"
    by (simp add: proto_vars_def)
  have b: "tw_startTime (animateSingle 1 0 proto_vars) \<le> 500"
    by (simp add: tw_startTime_animateSingle proto_vars_def empty_vars_def or_default_def)
  have c: "call_inherited example_host ''__proto__''
      (progress_at (animateSingle 1 0 proto_vars) 500) = Inl TypeError"
    by (simp add: example_host_def)
  from inherited_easing_frame_throws [OF a b c, of fade_up_style] a b
  show ?thesis by simp
qed

subsection \<open>Style writes\<close>

lemma transform_string_parts:
  "transform_string h vars current =
     (if truthy (var_x vars) \<or> truthy (var_y vars) then translate_part h current else '''')
     @ (if var_scale vars \<noteq> None then scale_part h current else '''')
     @ (if var_rotate vars \<noteq> None then rotate_part h current else '''')"
  by (simp add: transform_string_def Let_def)

lemma transform_string_empty_iff:
  "transform_string h vars current = '''' \<longleftrightarrow>
     \<not> truthy (var_x vars) \<and> \<not> truthy (var_y vars)
     \<and> var_scale vars = None \<and> var_rotate vars = None"
  by (auto simp: transform_string_parts translate_part_def scale_part_def rotate_part_def)

lemma apply_style_other:
  "k \<noteq> ''opacity'' \<Longrightarrow> k \<noteq> ''transform'' \<Longrightarrow> apply_style h vars current st k = st k"
  by (simp add: apply_style_def Let_def)

lemma apply_style_opacity:
  "apply_style h vars current st ''opacity'' =
     (if var_opacity vars \<noteq> None then Some (num_to_string h (av_opacity current))
      else st ''opacity'')"
  by (simp add: apply_style_def Let_def)

lemma apply_style_transform:
  "apply_style h vars current st ''transform'' =
     (if transform_string h vars current \<noteq> '''' then Some (transform_string h vars current)
      else st ''transform'')"
  by (simp add: apply_style_def Let_def)

lemma tick_style:
  assumes "tick h tw now st = Inr (st', out)"
  shows "st' = st \<or> (\<exists>current. st' = apply_style h (tw_vars tw) current st)"
  using assms
  by (auto simp: tick_def Let_def split: if_splits sum.splits)

lemma fade_up_tick:
  "tick h (animateSingle 0 0 fade_up_vars) 400 st
     = Inr (st(''opacity'' \<mapsto> num_to_string h 1.0876975), Running)"
proof -
  let ?tw = "animateSingle 0 0 fade_up_vars"
  have p: "progress_at ?tw 400 = 1/2"
    by (simp add: progress_at_def Let_def tween_fields fade_up_vars_def empty_vars_def
        or_default_def)
  have e: "tw_easing ?tw = Lib EaseOutBack"
    by (simp add: tween_fields fade_up_vars_def select_easing_def easings_get_def)
  have v: "ease EaseOutBack (1/2) = 1.0876975"
    by (simp add: easeOutBack_def Let_def power2_eq_square power3_eq_cube)
  have t: "transform_string h fade_up_vars current = ''''" for current
    by (simp add: transform_string_empty_iff fade_up_vars_def empty_vars_def truthy_def)
  have s: "tw_startTime ?tw \<le> 400"
    by (simp add: tween_fields fade_up_vars_def empty_vars_def or_default_def)
  have o: "av_opacity (interpolate (tw_startState ?tw) (tw_endState ?tw) 1.0876975) = 1.0876975"
    by (simp add: tween_fields interpolate_def startState_of_def endState_of_def
        fade_up_vars_def empty_vars_def)
  have a: "apply_style h (tw_vars ?tw)
       (interpolate (tw_startState ?tw) (tw_endState ?tw) 1.0876975) st
     = st(''opacity'' \<mapsto> num_to_string h 1.0876975)"
    unfolding apply_style_def tw_vars_animateSingle t o
    by (simp add: fade_up_vars_def empty_vars_def)
  have c: "call_easing h (tw_easing ?tw) (progress_at ?tw 400) = Inr 1.0876975"
    unfolding e p call_easing_def using v by simp
  show ?thesis
    unfolding tick_running [OF s c] p a by simp
qed

text \<open>
  Claim C10. A frame that returns leaves every style field other than \<^verbatim>\<open>opacity\<close> and
  \<^verbatim>\<open>transform\<close> as it was; it leaves \<^verbatim>\<open>opacity\<close> as it was when the descriptor
  requests no opacity; it leaves \<^verbatim>\<open>transform\<close> as it was or sets it to a non-empty
  composed string; and in the delay phase it writes nothing. (A frame whose easing call
  throws returns no style: it has written nothing.)
\<close>

theorem tick_writes_opacity_and_transform_only:
  assumes "tick h tw now st = Inr (st', out)"
  shows "(\<forall>k. k \<noteq> ''opacity'' \<and> k \<noteq> ''transform'' \<longrightarrow> st' k = st k)
     \<and> (var_opacity (tw_vars tw) = None \<longrightarrow> st' ''opacity'' = st ''opacity'')
     \<and> (st' ''transform'' = st ''transform''
          \<or> (\<exists>current. transform_string h (tw_vars tw) current \<noteq> ''''
                \<and> st' ''transform'' = Some (transform_string h (tw_vars tw) current)))
     \<and> (now < tw_startTime tw \<longrightarrow> st' = st)"
proof -
  have w: "now < tw_startTime tw \<longrightarrow> st' = st"
    using assms by (auto simp: tick_def)
  from tick_style [OF assms] show ?thesis
  proof
    assume "st' = st"
    then show ?thesis using w by simp
  next
    assume "\<exists>current. st' = apply_style h (tw_vars tw) current st"
    then obtain current where c: "st' = apply_style h (tw_vars tw) current st" by blast
    have "\<forall>k. k \<noteq> ''opacity'' \<and> k \<noteq> ''transform'' \<longrightarrow> st' k = st k"
      unfolding c by (simp add: apply_style_other)
    moreover have "var_opacity (tw_vars tw) = None \<longrightarrow> st' ''opacity'' = st ''opacity''"
      unfolding c by (simp add: apply_style_opacity)
    moreover have "st' ''transform'' = st ''transform''
          \<or> (\<exists>current. transform_string h (tw_vars tw) current \<noteq> ''''
                \<and> st' ''transform'' = Some (transform_string h (tw_vars tw) current))"
      unfolding c apply_style_transform by auto
    ultimately show ?thesis using w by blast
  qed
qed

theorem tick_writes_opacity_and_transform_only_witness:
  "tick example_host (animateSingle 0 0 fade_up_vars) 400 fade_up_style
     = Inr (fade_up_style(''opacity'' \<mapsto> ''?''), Running)
   \<and> (fade_up_style(''opacity'' \<mapsto> ''?'')) ''display'' = fade_up_style ''display''"
  using tick_writes_opacity_and_transform_only [of example_host "animateSingle 0 0 fade_up_vars"
      400 fade_up_style "fade_up_style(''opacity'' \<mapsto> ''?'')" Running]
  by (simp add: fade_up_tick example_host_def)

text \<open>
  Claim C2. The composed string holds the translate, scale and rotate parts in that
  order (\<open>transform_string_parts\<close>), and the scale and rotate parts exactly when
  requested; but the translate part is written when \<^verbatim>\<open>vars.x || vars.y\<close> is truthy,
  so a requested offset of 0 is omitted. For the script's own fade-up tween, which
  requests \<^verbatim>\<open>y: 0\<close>, the composed string is empty on every frame and the element
  keeps the \<^verbatim>\<open>translateY(30px)\<close> it was given before the tween.
\<close>

theorem fade_up_translate_omitted:
  "var_y fade_up_vars = Some 0
   \<and> transform_string h fade_up_vars current = ''''
   \<and> tick h (animateSingle 0 0 fade_up_vars) 400 fade_up_style
       = Inr (fade_up_style(''opacity'' \<mapsto> num_to_string h 1.0876975), Running)
   \<and> (fade_up_style(''opacity'' \<mapsto> num_to_string h 1.0876975)) ''transform''
       = Some ''translateY(30px)''"
  by (simp add: fade_up_tick transform_string_empty_iff)
    (simp add: fade_up_vars_def empty_vars_def truthy_def fade_up_style_def)

section \<open>Scroll trigger: proofs\<close>

lemma silent_after_enter_append:
  "silent_after_enter (cs @ [c]) \<longleftrightarrow>
     silent_after_enter cs \<and> OnEnter (call_target c) \<notin> set cs"
proof (induction cs rule: silent_after_enter.induct)
  case 1
  then show ?case by (cases c) simp_all
next
  case (2 e rest)
  then show ?case by (cases c) auto
next
  case (3 e rest)
  then show ?case by (cases c) auto
qed

lemma on_entry_observed_other:
  "e \<in> ob_observed ob \<Longrightarrow> e \<noteq> en_target en \<Longrightarrow> e \<in> ob_observed (on_entry opts en ob)"
  by (auto simp: on_entry_def Let_def)

text \<open>
  One entry for an observed element keeps both invariants: the element has had no
  \<^verbatim>\<open>onEnter\<close> yet, so whatever is appended for it follows none.
\<close>

lemma on_entry_invariant:
  assumes "opt_once opts" and "en_target en \<in> ob_observed ob"
    and "entered_unobserved ob" and "silent_after_enter (ob_calls ob)"
  shows "entered_unobserved (on_entry opts en ob)
     \<and> silent_after_enter (ob_calls (on_entry opts en ob))"
proof -
  have fresh: "OnEnter (en_target en) \<notin> set (ob_calls ob)"
    using assms(2,3) by (auto simp: entered_unobserved_def)
  show ?thesis
    using assms fresh
    by (auto simp: on_entry_def Let_def entered_unobserved_def silent_after_enter_append)
qed

lemma callback_invariant:
  assumes "opt_once opts"
  shows "distinct (map en_target entries) \<Longrightarrow> en_target ` set entries \<subseteq> ob_observed ob \<Longrightarrow>
     entered_unobserved ob \<Longrightarrow> silent_after_enter (ob_calls ob) \<Longrightarrow>
     entered_unobserved (fold (on_entry opts) entries ob)
       \<and> silent_after_enter (ob_calls (fold (on_entry opts) entries ob))"
proof (induction entries arbitrary: ob)
  case Nil
  then show ?case by simp
next
  case (Cons en entries)
  have here: "en_target en \<in> ob_observed ob" using Cons.prems(2) by simp
  have inv: "entered_unobserved (on_entry opts en ob)"
      "silent_after_enter (ob_calls (on_entry opts en ob))"
    using on_entry_invariant [OF assms here Cons.prems(3,4)] by simp_all
  have rest: "en_target ` set entries \<subseteq> ob_observed (on_entry opts en ob)"
  proof
    fix e assume e: "e \<in> en_target ` set entries"
    have "en_target en \<notin> en_target ` set entries" using Cons.prems(1) by simp
    with e have "e \<noteq> en_target en" by blast
    moreover have "e \<in> ob_observed ob" using e Cons.prems(2) by auto
    ultimately show "e \<in> ob_observed (on_entry opts en ob)"
      by (rule on_entry_observed_other [rotated])
  qed
  have "distinct (map en_target entries)" using Cons.prems(1) by simp
  from Cons.IH [OF this rest inv] show ?case by simp
qed

lemma notify_invariant:
  assumes "opt_once opts" and "one_entry_per_target entries"
    and "entered_unobserved ob" and "silent_after_enter (ob_calls ob)"
  shows "entered_unobserved (notify opts entries ob)
       \<and> silent_after_enter (ob_calls (notify opts entries ob))"
proof -
  let ?es = "filter (\<lambda>en. en_target en \<in> ob_observed ob) entries"
  have d: "distinct (map en_target ?es)"
    using assms(2) by (simp add: one_entry_per_target_def distinct_map_filter)
  have s: "en_target ` set ?es \<subseteq> ob_observed ob" by auto
  from callback_invariant [OF assms(1) d s assms(3,4)]
  show ?thesis by (simp add: notify_def observer_callback_def)
qed

lemma notify_all_invariant:
  assumes "opt_once opts"
  shows "list_all one_entry_per_target batches \<Longrightarrow>
     entered_unobserved ob \<Longrightarrow> silent_after_enter (ob_calls ob) \<Longrightarrow>
     entered_unobserved (notify_all opts batches ob)
       \<and> silent_after_enter (ob_calls (notify_all opts batches ob))"
proof (induction batches arbitrary: ob)
  case Nil
  then show ?case by (simp add: notify_all_def)
next
  case (Cons b batches)
  have b: "one_entry_per_target b" and bs: "list_all one_entry_per_target batches"
    using Cons.prems(1) by simp_all
  have "entered_unobserved (notify opts b ob)" "silent_after_enter (ob_calls (notify opts b ob))"
    using notify_invariant [OF assms b Cons.prems(2,3)] by simp_all
  from Cons.IH [OF bs this] show ?case by (simp add: notify_all_def)
qed

lemma scrollTrigger_once: "scrollTrigger two_elements ''.counter'' once_opts = Some once_observer"
  by (simp add: scrollTrigger_def two_elements_def once_opts_def or_default_def once_observer_def)

lemma once_run:
  "notify_all once_opts once_batches once_observer
   = \<lparr>ob_threshold = 0.2, ob_observed = {}, ob_calls = [OnLeave 1, OnEnter 2, OnEnter 1]\<rparr>"
  by (auto simp: notify_all_def notify_def observer_callback_def on_entry_def once_opts_def
      once_observer_def once_batches_def Let_def)

text \<open>
  With \<^verbatim>\<open>once\<close> set and an \<^verbatim>\<open>onLeave\<close> callback given, a notification that an
  observed element is not intersecting (the first notification for an element below
  the fold is one) invokes \<^verbatim>\<open>onLeave\<close> for it.
\<close>

theorem on_leave_with_once_counterexample:
  "opt_once once_opts
   \<and> scrollTrigger two_elements ''.counter'' once_opts = Some once_observer
   \<and> ob_calls (notify_all once_opts
        [[\<lparr>en_target = 1, en_isIntersecting = False\<rparr>]] once_observer) = [OnLeave 1]"
  by (simp add: scrollTrigger_once)
    (simp add: notify_all_def notify_def observer_callback_def on_entry_def once_opts_def
      once_observer_def)

text \<open>
  Claim C3. For a registration with \<^verbatim>\<open>once\<close> set, over any sequence of
  notifications that each hold at most one entry per element: no callback for an
  element, \<^verbatim>\<open>onEnter\<close> or \<^verbatim>\<open>onLeave\<close>, follows an \<^verbatim>\<open>onEnter\<close> for that element, and
  an element whose \<^verbatim>\<open>onEnter\<close> has fired is not observed any more. (Before its first
  \<^verbatim>\<open>onEnter\<close> an element can still get \<^verbatim>\<open>onLeave\<close>.)
\<close>

theorem once_silent_after_enter:
  assumes "opt_once opts"
    and "scrollTrigger querySelectorAll selector opts = Some ob"
    and "list_all one_entry_per_target batches"
  shows "silent_after_enter (ob_calls (notify_all opts batches ob))
     \<and> (\<forall>e. OnEnter e \<in> set (ob_calls (notify_all opts batches ob))
            \<longrightarrow> e \<notin> ob_observed (notify_all opts batches ob))"
proof -
  have c: "ob_calls ob = []"
    using assms(2) by (auto simp: scrollTrigger_def Let_def split: if_splits)
  have "entered_unobserved ob" "silent_after_enter (ob_calls ob)"
    by (simp_all add: c entered_unobserved_def)
  from notify_all_invariant [OF assms(1,3) this]
  show ?thesis by (simp add: entered_unobserved_def)
qed

theorem once_silent_after_enter_witness:
  "ob_calls (notify_all once_opts once_batches once_observer) = [OnLeave 1, OnEnter 2, OnEnter 1]
   \<and> silent_after_enter (ob_calls (notify_all once_opts once_batches once_observer))
   \<and> ob_observed (notify_all once_opts once_batches once_observer) = {}"
proof -
  have o: "opt_once once_opts" by (simp add: once_opts_def)
  have b: "list_all one_entry_per_target once_batches"
    by (simp add: one_entry_per_target_def once_batches_def)
  from once_silent_after_enter [OF o scrollTrigger_once b]
  have "silent_after_enter (ob_calls (notify_all once_opts once_batches once_observer))"
    by (rule conjunct1)
  then show ?thesis
    by (simp add: once_run)
qed

section \<open>Particle simulation: proofs\<close>

subsection \<open>One update step\<close>

lemma update_x:
  "p_x (update fl width height p) =
     (if fl (p_x p + p_vx p) < 0 then width
      else if fl (p_x p + p_vx p) > width then 0 else fl (p_x p + p_vx p))"
  by (simp add: update_def Let_def)

lemma update_y:
  "p_y (update fl width height p) =
     (if fl (p_y p + p_vy p) < 0 then height
      else if fl (p_y p + p_vy p) > height then 0 else fl (p_y p + p_vy p))"
  by (simp add: update_def Let_def)

text \<open>
  A rounding that is monotone and leaves 0 and the bound as they are keeps a sum that
  is within the bounds within them.
\<close>

lemma rounded_within:
  assumes "mono fl" and "fl bound = bound" and "fl 0 = 0" and "0 \<le> s" and "s \<le> bound"
  shows "0 \<le> fl s \<and> fl s \<le> bound"
proof -
  have "fl 0 \<le> fl s" using assms(1,4) by (rule monoD)
  moreover have "fl s \<le> fl bound" using assms(1,5) by (rule monoD)
  ultimately show ?thesis using assms(2,3) by simp
qed

lemma edge_particle_stays:
  assumes "mono fl" and "fl 100 = 100" and "fl 99 = 99"
  shows "99 \<le> p_x (update fl 100 100 edge_particle) \<and> p_x (update fl 100 100 edge_particle) \<le> 100"
proof -
  have s: "p_x edge_particle + p_vx edge_particle = 99.95"
    by (simp add: edge_particle_def)
  have "fl 99 \<le> fl 99.95" using assms(1) by (rule monoD) simp
  moreover have "fl 99.95 \<le> fl 100" using assms(1) by (rule monoD) simp
  ultimately have "99 \<le> fl 99.95 \<and> fl 99.95 \<le> 100" using assms(2,3) by simp
  then show ?thesis
    unfolding update_x s by auto
qed

lemma fast_edge_particle_wraps:
  assumes "mono fl" and "fl 100.125 = 100.125"
  shows "p_x (update fl 100 100 fast_edge_particle) = 0"
proof -
  have s: "p_x fast_edge_particle + p_vx fast_edge_particle = 100.15"
    by (simp add: fast_edge_particle_def)
  have "fl 100.125 \<le> fl 100.15" using assms(1) by (rule monoD) simp
  then have "100 < fl 100.15" using assms(2) by simp
  then show ?thesis
    unfolding update_x s by auto
qed

text \<open>
  On a canvas 100 wide, a particle at \<open>x = 99.9\<close> with \<open>vx = 0.05\<close> is at
  \<open>x = 99.95\<close> after one step of exact arithmetic: it has not left the canvas, so it
  does not wrap. (By \<open>edge_particle_stays\<close> it stays between 99 and 100 under every
  monotone rounding that leaves 99 and 100 as they are.)
\<close>

theorem update_no_wrap_counterexample:
  "p_x edge_particle = 100 - 0.1 \<and> 0 < p_vx edge_particle
   \<and> p_x (update exact 100 100 edge_particle) = 99.95"
  by (simp add: edge_particle_def update_def Let_def exact_def)

text \<open>
  Claim C4. One update step adds the velocity to the position, the sum rounded as the
  host rounds it; a coordinate that has become negative is set to the far bound, one
  that has passed the far bound is set to 0, and any other coordinate stays where the
  velocity took it. On a canvas with non-negative bounds the new position lies within
  them. For a monotone rounding that leaves 0 and the bound as they are, a sum that
  is within the bounds before rounding is not wrapped, and a sum that has reached a
  representable number \<open>c\<close> beyond the bound is wrapped: a particle near the right
  edge is at \<open>x = 0\<close> after the step when its sum has passed the width, and not for
  every \<open>vx > 0\<close>; likewise at the other three edges. Velocity and radius do not
  change.
\<close>

theorem update_wraps:
  assumes "0 \<le> width" and "0 \<le> height"
  shows "p_x (update fl width height p) =
       (if fl (p_x p + p_vx p) < 0 then width
        else if fl (p_x p + p_vx p) > width then 0 else fl (p_x p + p_vx p))
     \<and> p_y (update fl width height p) =
       (if fl (p_y p + p_vy p) < 0 then height
        else if fl (p_y p + p_vy p) > height then 0 else fl (p_y p + p_vy p))
     \<and> 0 \<le> p_x (update fl width height p) \<and> p_x (update fl width height p) \<le> width
     \<and> 0 \<le> p_y (update fl width height p) \<and> p_y (update fl width height p) \<le> height
     \<and> (width < fl (p_x p + p_vx p) \<longrightarrow> p_x (update fl width height p) = 0)
     \<and> (fl (p_x p + p_vx p) < 0 \<longrightarrow> p_x (update fl width height p) = width)
     \<and> (height < fl (p_y p + p_vy p) \<longrightarrow> p_y (update fl width height p) = 0)
     \<and> (fl (p_y p + p_vy p) < 0 \<longrightarrow> p_y (update fl width height p) = height)
     \<and> (mono fl \<and> fl width = width \<and> fl 0 = 0
          \<and> 0 \<le> p_x p + p_vx p \<and> p_x p + p_vx p \<le> width
          \<longrightarrow> p_x (update fl width height p) = fl (p_x p + p_vx p))
     \<and> (mono fl \<and> fl height = height \<and> fl 0 = 0
          \<and> 0 \<le> p_y p + p_vy p \<and> p_y p + p_vy p \<le> height
          \<longrightarrow> p_y (update fl width height p) = fl (p_y p + p_vy p))
     \<and> (mono fl \<and> fl c = c \<and> width < c \<and> c \<le> p_x p + p_vx p
          \<longrightarrow> p_x (update fl width height p) = 0)
     \<and> (mono fl \<and> fl d = d \<and> d < 0 \<and> p_x p + p_vx p \<le> d
          \<longrightarrow> p_x (update fl width height p) = width)
     \<and> (mono fl \<and> fl c = c \<and> height < c \<and> c \<le> p_y p + p_vy p
          \<longrightarrow> p_y (update fl width height p) = 0)
     \<and> (mono fl \<and> fl d = d \<and> d < 0 \<and> p_y p + p_vy p \<le> d
          \<longrightarrow> p_y (update fl width height p) = height)
     \<and> p_vx (update fl width height p) = p_vx p \<and> p_vy (update fl width height p) = p_vy p
     \<and> p_size (update fl width height p) = p_size p"
proof -
  have keep: "p_vx (update fl width height p) = p_vx p \<and> p_vy (update fl width height p) = p_vy p
     \<and> p_size (update fl width height p) = p_size p"
    by (simp add: update_def Let_def)
  have range: "0 \<le> p_x (update fl width height p) \<and> p_x (update fl width height p) \<le> width
     \<and> 0 \<le> p_y (update fl width height p) \<and> p_y (update fl width height p) \<le> height"
    using assms unfolding update_x update_y by auto
  have wrap: "(width < fl (p_x p + p_vx p) \<longrightarrow> p_x (update fl width height p) = 0)
     \<and> (fl (p_x p + p_vx p) < 0 \<longrightarrow> p_x (update fl width height p) = width)
     \<and> (height < fl (p_y p + p_vy p) \<longrightarrow> p_y (update fl width height p) = 0)
     \<and> (fl (p_y p + p_vy p) < 0 \<longrightarrow> p_y (update fl width height p) = height)"
    using assms unfolding update_x update_y by auto
  have inside_x: "mono fl \<and> fl width = width \<and> fl 0 = 0
          \<and> 0 \<le> p_x p + p_vx p \<and> p_x p + p_vx p \<le> width
          \<longrightarrow> p_x (update fl width height p) = fl (p_x p + p_vx p)"
    unfolding update_x using rounded_within [of fl width "p_x p + p_vx p"] by auto
  have inside_y: "mono fl \<and> fl height = height \<and> fl 0 = 0
          \<and> 0 \<le> p_y p + p_vy p \<and> p_y p + p_vy p \<le> height
          \<longrightarrow> p_y (update fl width height p) = fl (p_y p + p_vy p)"
    unfolding update_y using rounded_within [of fl height "p_y p + p_vy p"] by auto
  have past_x: "mono fl \<and> fl c = c \<and> width < c \<and> c \<le> p_x p + p_vx p
          \<longrightarrow> p_x (update fl width height p) = 0"
    unfolding update_x using assms(1) monoD [of fl c "p_x p + p_vx p"] by auto
  have before_x: "mono fl \<and> fl d = d \<and> d < 0 \<and> p_x p + p_vx p \<le> d
          \<longrightarrow> p_x (update fl width height p) = width"
    unfolding update_x using monoD [of fl "p_x p + p_vx p" d] by auto
  have past_y: "mono fl \<and> fl c = c \<and> height < c \<and> c \<le> p_y p + p_vy p
          \<longrightarrow> p_y (update fl width height p) = 0"
    unfolding update_y using assms(2) monoD [of fl c "p_y p + p_vy p"] by auto
  have before_y: "mono fl \<and> fl d = d \<and> d < 0 \<and> p_y p + p_vy p \<le> d
          \<longrightarrow> p_y (update fl width height p) = height"
    unfolding update_y using monoD [of fl "p_y p + p_vy p" d] by auto
  from keep range wrap inside_x inside_y past_x before_x past_y before_y
    update_x [of fl width height p] update_y [of fl width height p]
  show ?thesis by blast
qed

theorem update_wraps_witness:
  "p_x fast_edge_particle = 100 - 0.1 \<and> 100 < exact (p_x fast_edge_particle + p_vx fast_edge_particle)
   \<and> p_x (update exact 100 100 fast_edge_particle) = 0
   \<and> p_y (update exact 100 100 fast_edge_particle) = 50"
  using update_wraps [of 100 100 exact fast_edge_particle "100.125" "- 1"]
  by (simp add: fast_edge_particle_def exact_def)

subsection \<open>The pool\<close>

lemma init_loop_width [simp]: "sim_width (init_loop random i s) = sim_width s"
  by (induction random i s rule: init_loop.induct) (subst init_loop.simps, simp)

lemma init_loop_height [simp]: "sim_height (init_loop random i s) = sim_height s"
  by (induction random i s rule: init_loop.induct) (subst init_loop.simps, simp)

lemma upt_map_Suc: "map f [0..<Suc n] = f 0 # map (\<lambda>j. f (Suc j)) [0..<n]"
  by (simp only: upt_conv_Cons [of 0 "Suc n", OF zero_less_Suc] map_Suc_upt [symmetric]
      list.map map_map comp_def)

lemma init_loop_particles:
  "sim_particles (init_loop random i s) =
     sim_particles s @
       map (\<lambda>j. Particle_new random (sim_draws s + 5 * j) (sim_width s) (sim_height s)) [0..<50 - i]"
proof (induction random i s rule: init_loop.induct)
  case (1 random i s)
  show ?case
  proof (cases "i < 50")
    case True
    then have n: "50 - i = Suc (50 - (i + 1))" by simp
    show ?thesis
      apply (subst init_loop.simps)
      apply (simp only: True if_True "1.IH" [OF True])
      apply (subst n)
      apply (subst upt_map_Suc)
      apply (simp add: algebra_simps)
      done
  next
    case False
    then show ?thesis
      by (subst init_loop.simps) simp
  qed
qed

lemma init_particles:
  "sim_particles (init random s) =
     map (\<lambda>j. Particle_new random (sim_draws s + 5 * j) (sim_width s) (sim_height s)) [0..<50]"
  by (simp add: init_def init_loop_particles)

lemma created_particles:
  "sim_particles (created random iw ih) =
     map (\<lambda>j. Particle_new random (5 * j) (real iw) (real ih)) [0..<50]"
  by (simp add: created_def init_particles resize_def)

lemma created_nth:
  "j < 50 \<Longrightarrow>
   sim_particles (created random iw ih) ! j = Particle_new random (5 * j) (real iw) (real ih)"
  by (simp add: created_particles)

lemma created_size:
  "sim_width (created random iw ih) = real iw \<and> sim_height (created random iw ih) = real ih"
  by (simp add: created_def init_def resize_def)

lemma Particle_new_in_range:
  assumes "\<forall>k. 0 \<le> random k \<and> random k < 1" and "0 \<le> width" and "0 \<le> height"
  shows "in_range width height (Particle_new random k width height)"
proof -
  have r: "0 \<le> random j" "random j < 1" for j using assms(1) by auto
  have "random k * width \<le> 1 * width"
    using r [of k] assms(2) by (intro mult_right_mono) auto
  moreover have "random (k + 1) * height \<le> 1 * height"
    using r [of "k + 1"] assms(3) by (intro mult_right_mono) auto
  ultimately show ?thesis
    using r [of k] r [of "k + 1"] r [of "k + 2"] r [of "k + 3"] r [of "k + 4"] assms(2,3)
    by (simp add: in_range_def Particle_new_def)
qed

text \<open>
  The position is the value of \<^verbatim>\<open>Math.random\<close> scaled by the size of the canvas: it
  falls in a stretch \<open>[a, b)\<close> of the canvas exactly when the value falls in
  \<open>[a / width, b / width)\<close>, a stretch of the unit interval of proportional length.
\<close>

lemma scaled_draw_in_stretch:
  fixes r :: real
  assumes "0 < w"
  shows "(a \<le> r * w \<and> r * w < b) \<longleftrightarrow> (a / w \<le> r \<and> r < b / w)"
  using assms by (simp add: pos_divide_le_eq pos_less_divide_eq)

lemma resize_particles: "sim_particles (resize iw ih s) = sim_particles s"
  by (simp add: resize_def)

lemma hd_created:
  "hd (sim_particles (created random iw ih)) = Particle_new random 0 (real iw) (real ih)"
proof -
  have "[0..<50] = 0 # [Suc 0..<50]" by (rule upt_conv_Cons) simp
  then show ?thesis by (simp add: created_particles)
qed

text \<open>
  Claim C1. Without the canvas element nothing is created. With it, at startup the
  canvas takes the viewport's size and the pool is created: exactly 50 particles, the
  particle at index \<open>j\<close> built from the five values \<open>5j, ..., 5j + 4\<close> that
  \<^verbatim>\<open>Math.random\<close> returns, one value for each field: the position is the first two
  scaled by the width and the height of the canvas (so it is spread over the canvas as
  the values are spread over the unit interval), each velocity component is a value
  less one half, halved, and the radius is a value doubled. For values in \<open>[0, 1)\<close>
  the position lies within the canvas, the velocity components in \<open>[-0.25, 0.25]\<close> and
  the radius in \<open>[0, 2)\<close>. The first frame keeps the 50. A resize event sets the
  canvas size from the viewport and leaves the pool as it is.
\<close>

theorem pool_created_once:
  assumes "\<forall>k. 0 \<le> random k \<and> random k < 1"
  shows "initParticles None fl random iw ih = None
     \<and> initParticles (Some canvas) fl random iw ih = Some (animate fl (created random iw ih))
     \<and> sim_width (created random iw ih) = real iw
     \<and> sim_height (created random iw ih) = real ih
     \<and> length (sim_particles (created random iw ih)) = 50
     \<and> (\<forall>j<50. sim_particles (created random iw ih) ! j =
           \<lparr>p_x = random (5 * j) * real iw,
            p_y = random (5 * j + 1) * real ih,
            p_vx = (random (5 * j + 2) - 0.5) * 0.5,
            p_vy = (random (5 * j + 3) - 0.5) * 0.5,
            p_size = random (5 * j + 4) * 2\<rparr>)
     \<and> (\<forall>p \<in> set (sim_particles (created random iw ih)). in_range (real iw) (real ih) p)
     \<and> (\<forall>j<50. 0 < iw \<longrightarrow>
           (a \<le> p_x (sim_particles (created random iw ih) ! j)
              \<and> p_x (sim_particles (created random iw ih) ! j) < b
            \<longleftrightarrow> a / real iw \<le> random (5 * j) \<and> random (5 * j) < b / real iw))
     \<and> (\<forall>j<50. 0 < ih \<longrightarrow>
           (a \<le> p_y (sim_particles (created random iw ih) ! j)
              \<and> p_y (sim_particles (created random iw ih) ! j) < b
            \<longleftrightarrow> a / real ih \<le> random (5 * j + 1) \<and> random (5 * j + 1) < b / real ih))
     \<and> length (sim_particles (animate fl (created random iw ih))) = 50
     \<and> sim_width (on_event fl (Resize iw' ih') s) = real iw'
     \<and> sim_height (on_event fl (Resize iw' ih') s) = real ih'
     \<and> sim_particles (on_event fl (Resize iw' ih') s) = sim_particles s"
proof -
  have start: "initParticles None fl random iw ih = None
     \<and> initParticles (Some canvas) fl random iw ih = Some (animate fl (created random iw ih))"
    by (simp add: initParticles_def)
  have fields: "\<forall>j<50. sim_particles (created random iw ih) ! j =
           \<lparr>p_x = random (5 * j) * real iw,
            p_y = random (5 * j + 1) * real ih,
            p_vx = (random (5 * j + 2) - 0.5) * 0.5,
            p_vy = (random (5 * j + 3) - 0.5) * 0.5,
            p_size = random (5 * j + 4) * 2\<rparr>"
    by (simp add: created_nth Particle_new_def)
  have range: "\<forall>p \<in> set (sim_particles (created random iw ih)). in_range (real iw) (real ih) p"
    using Particle_new_in_range [OF assms, of "real iw" "real ih"]
    by (auto simp: created_particles)
  have spread_x: "\<forall>j<50. 0 < iw \<longrightarrow>
           (a \<le> p_x (sim_particles (created random iw ih) ! j)
              \<and> p_x (sim_particles (created random iw ih) ! j) < b
            \<longleftrightarrow> a / real iw \<le> random (5 * j) \<and> random (5 * j) < b / real iw)"
    using scaled_draw_in_stretch [of "real iw" a _ b]
    by (simp add: created_nth Particle_new_def)
  have spread_y: "\<forall>j<50. 0 < ih \<longrightarrow>
           (a \<le> p_y (sim_particles (created random iw ih) ! j)
              \<and> p_y (sim_particles (created random iw ih) ! j) < b
            \<longleftrightarrow> a / real ih \<le> random (5 * j + 1) \<and> random (5 * j + 1) < b / real ih)"
    using scaled_draw_in_stretch [of "real ih" a _ b]
    by (simp add: created_nth Particle_new_def)
  have rest: "sim_width (created random iw ih) = real iw
     \<and> sim_height (created random iw ih) = real ih
     \<and> length (sim_particles (created random iw ih)) = 50
     \<and> length (sim_particles (animate fl (created random iw ih))) = 50
     \<and> sim_width (on_event fl (Resize iw' ih') s) = real iw'
     \<and> sim_height (on_event fl (Resize iw' ih') s) = real ih'
     \<and> sim_particles (on_event fl (Resize iw' ih') s) = sim_particles s"
    by (simp add: created_size created_particles resize_def animate_def)
  from start fields range spread_x spread_y rest show ?thesis
    by blast
qed

text \<open>
  After a resize event from 800 by 600 to 100 by 100 the pool is the one created at
  startup, and its first particle is still at \<open>x = 400\<close>, outside the new canvas.
\<close>

theorem resize_keeps_pool_counterexample:
  "sim_particles (on_event exact (Resize 100 100) (created half 800 600))
     = sim_particles (created half 800 600)
   \<and> sim_width (on_event exact (Resize 100 100) (created half 800 600)) = 100
   \<and> p_x (hd (sim_particles (on_event exact (Resize 100 100) (created half 800 600)))) = 400"
  by (simp add: resize_def hd_created Particle_new_def half_def)

theorem pool_created_once_witness:
  "length (sim_particles (created half 800 600)) = 50
   \<and> sim_particles (created half 800 600) ! 7
       = \<lparr>p_x = 400, p_y = 300, p_vx = 0, p_vy = 0, p_size = 1\<rparr>
   \<and> in_range 800 600 (sim_particles (created half 800 600) ! 7)
   \<and> initParticles (Some ''particle-canvas'') exact half 800 600
       = Some (animate exact (created half 800 600))
   \<and> sim_particles (on_event exact (Resize 100 100) (created half 800 600))
       = sim_particles (created half 800 600)"
proof -
  have h: "\<forall>k. 0 \<le> half k \<and> half k < 1" by (simp add: half_def)
  note t = pool_created_once [OF h, of exact 800 600 "''particle-canvas''" 0 0 100 100
      "created half 800 600"]
  have len: "length (sim_particles (created half 800 600)) = 50"
    using t by blast
  have every: "\<forall>j<50. sim_particles (created half 800 600) ! j =
           \<lparr>p_x = half (5 * j) * real (800::nat),
            p_y = half (5 * j + 1) * real (600::nat),
            p_vx = (half (5 * j + 2) - 0.5) * 0.5,
            p_vy = (half (5 * j + 3) - 0.5) * 0.5,
            p_size = half (5 * j + 4) * 2\<rparr>"
    using t by blast
  have p7: "sim_particles (created half 800 600) ! 7
       = \<lparr>p_x = 400, p_y = 300, p_vx = 0, p_vy = 0, p_size = 1\<rparr>"
    using every [rule_format, of 7] by (simp add: half_def)
  have r7: "in_range 800 600 (sim_particles (created half 800 600) ! 7)"
    unfolding p7 by (simp add: in_range_def)
  have start: "initParticles (Some ''particle-canvas'') exact half 800 600
       = Some (animate exact (created half 800 600))"
    using t by blast
  have keep: "sim_particles (on_event exact (Resize 100 100) (created half 800 600))
       = sim_particles (created half 800 600)"
    using t by blast
  from len p7 r7 start keep show ?thesis by blast
qed

end
